theory Spec2Isabelle
  imports Complex_Main "HOL-Library.AList"
begin

section \<open>Python values used by the plugin\<close>

text \<open>
  The plugin reads a JSON document with \<^verbatim>\<open>json.load\<close> and works on the Python values
  that come out of it. A Python \<^verbatim>\<open>str\<close> is modelled as a \<^typ>\<open>string\<close> whose characters
  stand for the code points below 256; a Python \<^verbatim>\<open>int\<close> is an unbounded \<^typ>\<open>int\<close>; a
  Python \<^verbatim>\<open>float\<close> is a finite value, one of the two infinities or NaN (\<^verbatim>\<open>json.load\<close>
  accepts the literals \<^verbatim>\<open>NaN\<close>, \<^verbatim>\<open>Infinity\<close> and \<^verbatim>\<open>-Infinity\<close>); a \<^verbatim>\<open>dict\<close> is an
  association list in insertion order.
\<close>

datatype pyfloat = Finite real | PosInf | NegInf | NaN

datatype json =
    JNull
  | JBool bool
  | JInt int
  | JFloat pyfloat
  | JStr string
  | JList "json list"
  | JObj "(string \<times> json) list"

type_synonym dict = "(string \<times> json) list"

datatype py_error = TypeError | AttributeError

subsection \<open>Strings\<close>

text \<open>\<^verbatim>\<open>str.isspace\<close> on one character, for the code points below 256.\<close>

definition is_space :: "char \<Rightarrow> bool" where
  "is_space c = (c \<in> set [CHR 0x09, CHR 0x0A, CHR 0x0B, CHR 0x0C, CHR 0x0D,
     CHR 0x1C, CHR 0x1D, CHR 0x1E, CHR 0x1F, CHR 0x20, CHR 0x85, CHR 0xA0])"

text \<open>\<^verbatim>\<open>s.strip()\<close>\<close>

definition strip :: "string \<Rightarrow> string" where
  "strip s = rev (dropWhile is_space (rev (dropWhile is_space s)))"

text \<open>\<^verbatim>\<open>s.startswith(p)\<close>\<close>

definition startswith :: "string \<Rightarrow> string \<Rightarrow> bool" where
  "startswith s p = (take (length p) s = p)"

text \<open>\<^verbatim>\<open>sub in s\<close> for two strings\<close>

fun contains :: "string \<Rightarrow> string \<Rightarrow> bool" where
  "contains sub [] = (sub = [])"
| "contains sub (c # cs) = (if startswith (c # cs) sub then True else contains sub cs)"

text \<open>\<^verbatim>\<open>s.split()\<close>: the maximal runs of characters that are not whitespace. The first
  argument is the word read so far.\<close>

fun split_ws :: "string \<Rightarrow> string \<Rightarrow> string list" where
  "split_ws w [] = (if w = [] then [] else [w])"
| "split_ws w (c # cs) =
     (if is_space c then (if w = [] then split_ws [] cs else w # split_ws [] cs)
      else split_ws (w @ [c]) cs)"

text \<open>\<^verbatim>\<open>s.split(sep)\<close> for a separator of one character: empty pieces are kept.\<close>

fun split_on :: "char \<Rightarrow> string \<Rightarrow> string list" where
  "split_on sep [] = [[]]"
| "split_on sep (c # cs) =
     (if c = sep then [] # split_on sep cs
      else (case split_on sep cs of [] \<Rightarrow> [[c]] | r # rs \<Rightarrow> (c # r) # rs))"

text \<open>\<^verbatim>\<open>sep.join(xs)\<close>\<close>

fun join :: "string \<Rightarrow> string list \<Rightarrow> string" where
  "join sep [] = []"
| "join sep [x] = x"
| "join sep (x # y # ys) = x @ sep @ join sep (y # ys)"

text \<open>\<^verbatim>\<open>str(n)\<close> for an integer: decimal digits, with a minus sign below zero.\<close>

definition digit_char :: "nat \<Rightarrow> char" where
  "digit_char d = ''0123456789'' ! (d mod 10)"

fun str_of_nat :: "nat \<Rightarrow> string" where
  "str_of_nat n = (if n < 10 then [digit_char n] else str_of_nat (n div 10) @ [digit_char n])"

declare str_of_nat.simps [simp del]

definition str_of_int :: "int \<Rightarrow> string" where
  "str_of_int i = (if i < 0 then CHR ''-'' # str_of_nat (nat (- i)) else str_of_nat (nat i))"

subsection \<open>Truth value and \<^verbatim>\<open>str()\<close> of a value\<close>

text \<open>The truth value Python gives a value in \<^verbatim>\<open>if v\<close> and \<^verbatim>\<open>not v\<close>.\<close>

fun truthy :: "json \<Rightarrow> bool" where
  "truthy JNull = False"
| "truthy (JBool b) = b"
| "truthy (JInt i) = (i \<noteq> 0)"
| "truthy (JFloat (Finite r)) = (r \<noteq> 0)"
| "truthy (JFloat _) = True"
| "truthy (JStr s) = (s \<noteq> [])"
| "truthy (JList l) = (l \<noteq> [])"
| "truthy (JObj d) = (d \<noteq> [])"

text \<open>
  \<^verbatim>\<open>str(v)\<close>. The text Python prints for a float, a list or a dict is not part of the
  plugin: it is the parameter \<open>repr\<close>.
\<close>

fun py_str :: "(json \<Rightarrow> string) \<Rightarrow> json \<Rightarrow> string" where
  "py_str repr JNull = ''None''"
| "py_str repr (JBool b) = (if b then ''True'' else ''False'')"
| "py_str repr (JInt i) = str_of_int i"
| "py_str repr (JStr s) = s"
| "py_str repr v = repr v"

subsection \<open>Dictionaries\<close>

text \<open>\<^verbatim>\<open>d.get(k)\<close>, \<^verbatim>\<open>d.get(k, default)\<close>, \<^verbatim>\<open>k in d\<close>, \<^verbatim>\<open>d.update(other)\<close> (an existing key
  keeps its place, a new key goes to the end) and \<^verbatim>\<open>del d[k]\<close>. A dict that Python builds
  holds no key twice; the functions are defined on every association list, and none of the
  results below needs the keys of the user document to be distinct.\<close>

definition dict_get :: "dict \<Rightarrow> string \<Rightarrow> json option" where
  "dict_get d k = map_of d k"

definition dict_get_default :: "dict \<Rightarrow> string \<Rightarrow> json \<Rightarrow> json" where
  "dict_get_default d k dflt = (case map_of d k of None \<Rightarrow> dflt | Some v \<Rightarrow> v)"

definition dict_keys :: "dict \<Rightarrow> string list" where
  "dict_keys d = map fst d"

definition dict_update :: "dict \<Rightarrow> dict \<Rightarrow> dict" where
  "dict_update d other = fold (\<lambda>(k, v). AList.update k v) other d"

definition dict_del :: "string \<Rightarrow> dict \<Rightarrow> dict" where
  "dict_del k d = AList.delete k d"

section \<open>The tables of the plugin\<close>

definition LEXER_TO_PARSER :: "(string \<times> string) list" where
  "LEXER_TO_PARSER =
    [(''JavaScript'', ''babel''),
     (''JavaScript Babel'', ''babel-flow''),
     (''TypeScript'', ''typescript''),
     (''CSS'', ''css''),
     (''SCSS'', ''scss''),
     (''LESS'', ''less''),
     (''HTML'', ''html''),
     (''XML'', ''html''),
     (''Markdown'', ''markdown''),
     (''MDX'', ''mdx''),
     (''JSON'', ''json''),
     (''YAML'', ''yaml''),
     (''GraphQL'', ''graphql''),
     (''HTML Handlebars'', ''html''),
     (''HTML Laravel Blade'', ''html''),
     (''HTML Django DTL'', ''html''),
     (''Jinja2'', ''html''),
     (''Twig'', ''html''),
     (''Svelte'', ''html''),
     (''Vue'', ''vue''),
     (''Pug'', ''pug''),
     (''Jade'', ''pug'')]"

text \<open>The value of the key \<^verbatim>\<open>prettier_options\<close> in \<^verbatim>\<open>DEFAULT_CONFIG\<close>.\<close>

definition DEFAULT_PRETTIER_OPTIONS :: dict where
  "DEFAULT_PRETTIER_OPTIONS =
    [(''printWidth'', JInt 80),
     (''// printWidth'', JStr ''Line length (default: 80)''),
     (''tabWidth'', JInt 2),
     (''// tabWidth'', JStr ''Spaces per indentation (default: 2)''),
     (''useTabs'', JBool False),
     (''// useTabs'', JStr ''Use tabs instead of spaces (default: false)''),
     (''semi'', JBool True),
     (''// semi'', JStr ''Add semicolons (default: true)''),
     (''singleQuote'', JBool False),
     (''// singleQuote'', JStr ''Use single quotes (default: false)''),
     (''jsxSingleQuote'', JBool False),
     (''// jsxSingleQuote'', JStr ''Single quotes in JSX (default: false)''),
     (''quoteProps'', JStr ''as-needed''),
     (''// quoteProps'',
        JStr ''Quote object properties: as-needed | consistent | preserve (default: as-needed)''),
     (''trailingComma'', JStr ''es5''),
     (''// trailingComma'', JStr ''Trailing commas: none | es5 | all (default: es5)''),
     (''bracketSpacing'', JBool True),
     (''// bracketSpacing'', JStr ''Spaces in brackets (default: true)''),
     (''bracketSameLine'', JBool False),
     (''// bracketSameLine'', JStr ''Put > on same line in HTML/JSX (default: false)''),
     (''arrowParens'', JStr ''always''),
     (''// arrowParens'', JStr ''Arrow function parens: avoid | always (default: always)''),
     (''proseWrap'', JStr ''preserve''),
     (''// proseWrap'', JStr ''Wrap prose: always | never | preserve (default: preserve)''),
     (''htmlWhitespaceSensitivity'', JStr ''css''),
     (''// htmlWhitespaceSensitivity'',
        JStr ''HTML whitespace: css | strict | ignore (default: css)''),
     (''vueIndentScriptAndStyle'', JBool False),
     (''// vueIndentScriptAndStyle'', JStr ''Indent script/style in Vue (default: false)''),
     (''endOfLine'', JStr ''lf''),
     (''// endOfLine'', JStr ''Line ending: auto | lf | crlf | cr (default: lf)''),
     (''embeddedLanguageFormatting'', JStr ''auto''),
     (''// embeddedLanguageFormatting'',
        JStr ''Format embedded code: auto | off (default: auto)''),
     (''singleAttributePerLine'', JBool False),
     (''// singleAttributePerLine'',
        JStr ''One attribute per line in HTML/JSX (default: false)''),
     (''objectWrap'', JStr ''preserve''),
     (''// objectWrap'',
        JStr ''Object wrap mode: preserve | collapse (default: preserve, v3.5.0+)''),
     (''experimentalTernaries'', JBool False),
     (''// experimentalTernaries'',
        JStr ''Ternary formatting: false | true (default: false, v3.1.0+, experimental)''),
     (''insertPragma'', JBool False),
     (''// insertPragma'', JStr ''Insert @format pragma (default: false)''),
     (''requirePragma'', JBool False),
     (''// requirePragma'', JStr ''Only format files with pragma (default: false)''),
     (''rangeStart'', JInt 0),
     (''// rangeStart'', JStr ''Format from byte offset (default: 0 = start of file)''),
     (''rangeEnd'', JStr ''Infinity''),
     (''// rangeEnd'', JStr ''Format to byte offset (default: Infinity = end of file)'')]"

definition DEFAULT_CONFIG :: dict where
  "DEFAULT_CONFIG =
    [(''prettier_path'', JStr []),
     (''// prettier_path'',
        JStr ''Custom path to Prettier executable. Leave empty for auto-detection''),
     (''timeout_seconds'', JInt 10),
     (''// timeout_seconds'', JStr ''Prettier subprocess timeout in seconds (default: 10)''),
     (''use_prettier_config_file'', JBool True),
     (''// use_prettier_config_file'',
        JStr ''If true, uses .prettierrc from project. If false, uses options below''),
     (''// PRETTIER OPTIONS NOTE'',
        JStr ''https://prettier.io/docs/en/options.html (only used when use_prettier_config_file=false)''),
     (''prettier_options'', JObj DEFAULT_PRETTIER_OPTIONS)]"

section \<open>Loading the configuration\<close>

text \<open>\<^verbatim>\<open>_filter_comments\<close>: the entries whose key does not start with \<^verbatim>\<open>//\<close>.\<close>

definition filter_comments :: "dict \<Rightarrow> dict" where
  "filter_comments config_dict = [(k, v) \<leftarrow> config_dict. \<not> startswith k ''//'']"

text \<open>
  The body of the \<^verbatim>\<open>try\<close> block of \<^verbatim>\<open>load_config\<close>, after \<^verbatim>\<open>json.load\<close> has returned
  \<open>user_config\<close>. A document that is not a dict, or whose \<^verbatim>\<open>prettier_options\<close> is not a
  dict, raises at the first operation a dict would have answered.
\<close>

fun merge_user_config :: "json \<Rightarrow> py_error + dict" where
  "merge_user_config (JObj user_config) =
     (case dict_get user_config ''prettier_options'' of
        None \<Rightarrow> Inr (dict_update (filter_comments DEFAULT_CONFIG) (filter_comments user_config))
      | Some (JObj user_options) \<Rightarrow>
          Inr (dict_update
                 (AList.update ''prettier_options''
                    (JObj (dict_update DEFAULT_PRETTIER_OPTIONS (filter_comments user_options)))
                    (filter_comments DEFAULT_CONFIG))
                 (filter_comments (dict_del ''prettier_options'' user_config)))
      | Some _ \<Rightarrow> Inl AttributeError)"
| "merge_user_config (JList l) =
     Inl (if JStr ''prettier_options'' \<in> set l then TypeError else AttributeError)"
| "merge_user_config (JStr s) =
     Inl (if contains ''prettier_options'' s then TypeError else AttributeError)"
| "merge_user_config _ = Inl TypeError"

text \<open>
  What \<^verbatim>\<open>load_config\<close> finds: no configuration path, a path with no file (the defaults
  are then written to it, which does not change the value returned), a file that cannot
  be read or parsed, or a parsed document.
\<close>

datatype cfg_file = NoConfigPath | FileMissing | Unreadable | Parsed json

definition load_config :: "cfg_file \<Rightarrow> dict" where
  "load_config f =
     (case f of
        NoConfigPath \<Rightarrow> filter_comments DEFAULT_CONFIG
      | FileMissing \<Rightarrow> filter_comments DEFAULT_CONFIG
      | Unreadable \<Rightarrow> filter_comments DEFAULT_CONFIG
      | Parsed user_config \<Rightarrow>
          (case merge_user_config user_config of
             Inl e \<Rightarrow> filter_comments DEFAULT_CONFIG
           | Inr config \<Rightarrow> config))"

section \<open>The world outside the plugin\<close>

text \<open>
  What a subprocess started with \<^verbatim>\<open>Popen\<close> and awaited with \<^verbatim>\<open>communicate\<close> can do:
  complete with a return code, a standard output and a standard error; run into the
  timeout (\<^verbatim>\<open>TimeoutExpired\<close>); fail to start because the executable is missing
  (\<^verbatim>\<open>FileNotFoundError\<close>); or raise another exception, with its message.
\<close>

datatype proc_outcome =
    Completed int string string
  | TimeoutExpired
  | FileNotFoundError
  | OtherException string

text \<open>
  The editor, the file system and the operating system, as the plugin asks them.
  \<open>tools_dir\<close> is the directory \<^verbatim>\<open>tools/Prettier\<close> beside the editor's data directory;
  \<open>probe_version\<close> says whether \<^verbatim>\<open>subprocess.run\<close> of a command returned with code 0
  (it is false when the run raised); \<open>run_process\<close> takes the command, the working
  directory, the input text and the timeout; \<open>py_repr\<close> is the text Python prints for
  a float, a list or a dict.
\<close>

record env =
  is_win :: bool
  path_exists :: "string \<Rightarrow> bool"
  is_file :: "string \<Rightarrow> bool"
  tools_dir :: string
  path_join :: "string \<Rightarrow> string \<Rightarrow> string"
  getcwd :: string
  probe_version :: "string list \<Rightarrow> bool"
  which :: "string \<Rightarrow> string option"
  ed_lexer :: string
  ed_filename :: string
  dirname :: "string \<Rightarrow> string"
  config_file :: cfg_file
  run_process :: "string list \<Rightarrow> string option \<Rightarrow> string \<Rightarrow> json \<Rightarrow> proc_outcome"
  py_repr :: "json \<Rightarrow> string"

section \<open>Finding the executable\<close>

text \<open>Steps 2 to 5 of \<^verbatim>\<open>find_prettier_executable\<close>: the bundled tool, the project's
  \<^verbatim>\<open>node_modules\<close>, the package manager executors in their fixed order, the search path.\<close>

definition package_managers :: "env \<Rightarrow> string list" where
  "package_managers e =
     (if is_win e
      then [''npx.cmd prettier'', ''yarn.cmd exec prettier'', ''pnpm.cmd exec prettier'',
            ''bunx.cmd prettier'']
      else [''npx prettier'', ''yarn exec prettier'', ''pnpm exec prettier'', ''bunx prettier''])"

definition find_in_path :: "env \<Rightarrow> string option" where
  "find_in_path e =
     (case find (\<lambda>pm_cmd. probe_version e (split_ws [] pm_cmd @ [''--version'']))
             (package_managers e) of
        Some pm_cmd \<Rightarrow> Some pm_cmd
      | None \<Rightarrow>
          (case which e ''prettier'' of
             None \<Rightarrow> None
           | Some path \<Rightarrow> (if path = [] then None else Some path)))"

definition find_local :: "env \<Rightarrow> string option" where
  "find_local e =
     (let local_prettier =
        path_join e (path_join e (path_join e (getcwd e) ''node_modules'') ''.bin'')
          (''prettier'' @ (if is_win e then ''.cmd'' else []))
      in if is_file e local_prettier then Some local_prettier else find_in_path e)"

definition find_bundled :: "env \<Rightarrow> string option" where
  "find_bundled e =
     (if is_win e
      then (case find (\<lambda>exe_name. is_file e (path_join e (tools_dir e) exe_name))
                   [''prettier.exe'', ''prettier.cmd''] of
              Some exe_name \<Rightarrow> Some (path_join e (tools_dir e) exe_name)
            | None \<Rightarrow> find_local e)
      else if is_file e (path_join e (tools_dir e) ''prettier'')
        then Some (path_join e (tools_dir e) ''prettier'')
        else find_local e)"

text \<open>\<^verbatim>\<open>find_prettier_executable\<close>: step 1 calls \<^verbatim>\<open>strip\<close> on the configured path, which
  raises when that value is not a string.\<close>

definition find_prettier_executable :: "env \<Rightarrow> dict \<Rightarrow> py_error + string option" where
  "find_prettier_executable e config =
     (case dict_get_default config ''prettier_path'' (JStr []) of
        JStr s \<Rightarrow>
          (let custom_path = strip s
           in if custom_path = [] then Inr (find_bundled e)
              else if path_exists e custom_path then Inr (Some custom_path)
              else Inr (find_bundled e))
      | _ \<Rightarrow> Inl AttributeError)"

section \<open>Building the command\<close>

fun is_str :: "json \<Rightarrow> bool" where
  "is_str (JStr s) = True"
| "is_str _ = False"

fun str_value :: "json \<Rightarrow> string" where
  "str_value (JStr s) = s"
| "str_value _ = []"

text \<open>\<^verbatim>\<open>if key in options: cmd_parts.extend([flag, str(options[key])])\<close>\<close>

definition flag_with_str :: "(json \<Rightarrow> string) \<Rightarrow> dict \<Rightarrow> string \<Rightarrow> string \<Rightarrow> json list" where
  "flag_with_str repr options key flag =
     (case dict_get options key of None \<Rightarrow> [] | Some v \<Rightarrow> [JStr flag, JStr (py_str repr v)])"

text \<open>\<^verbatim>\<open>if key in options: cmd_parts.extend([flag, options[key]])\<close>: the value goes into
  the list as it is.\<close>

definition flag_with_value :: "dict \<Rightarrow> string \<Rightarrow> string \<Rightarrow> json list" where
  "flag_with_value options key flag =
     (case dict_get options key of None \<Rightarrow> [] | Some v \<Rightarrow> [JStr flag, v])"

text \<open>\<^verbatim>\<open>if options.get(key, False): cmd_parts.append(flag)\<close>\<close>

definition flag_if_true :: "dict \<Rightarrow> string \<Rightarrow> string \<Rightarrow> json list" where
  "flag_if_true options key flag =
     (if truthy (dict_get_default options key (JBool False)) then [JStr flag] else [])"

text \<open>\<^verbatim>\<open>if not options.get(key, True): cmd_parts.append(flag)\<close>\<close>

definition flag_if_false :: "dict \<Rightarrow> string \<Rightarrow> string \<Rightarrow> json list" where
  "flag_if_false options key flag =
     (if truthy (dict_get_default options key (JBool True)) then [] else [JStr flag])"

text \<open>\<^verbatim>\<open>options.get(key)\<close>, whose \<^verbatim>\<open>None\<close> stands for a missing key and for a null value
  alike, then \<^verbatim>\<open>str(default if value is None else value)\<close>.\<close>

definition range_value :: "(json \<Rightarrow> string) \<Rightarrow> dict \<Rightarrow> string \<Rightarrow> json \<Rightarrow> string" where
  "range_value repr options key dflt =
     (let v = (case dict_get options key of None \<Rightarrow> JNull | Some x \<Rightarrow> x)
      in py_str repr (if v = JNull then dflt else v))"

text \<open>The tokens \<^verbatim>\<open>build_prettier_command\<close> appends for the inline options, in the
  order of the source.\<close>

definition option_tokens :: "(json \<Rightarrow> string) \<Rightarrow> dict \<Rightarrow> json list" where
  "option_tokens repr options =
     flag_with_str repr options ''printWidth'' ''--print-width''
   @ flag_with_str repr options ''tabWidth'' ''--tab-width''
   @ flag_if_true options ''useTabs'' ''--use-tabs''
   @ flag_if_false options ''semi'' ''--no-semi''
   @ flag_if_true options ''singleQuote'' ''--single-quote''
   @ flag_if_true options ''jsxSingleQuote'' ''--jsx-single-quote''
   @ flag_with_value options ''quoteProps'' ''--quote-props''
   @ flag_with_value options ''trailingComma'' ''--trailing-comma''
   @ flag_if_false options ''bracketSpacing'' ''--no-bracket-spacing''
   @ flag_if_true options ''bracketSameLine'' ''--bracket-same-line''
   @ flag_with_value options ''arrowParens'' ''--arrow-parens''
   @ flag_with_value options ''endOfLine'' ''--end-of-line''
   @ flag_with_value options ''proseWrap'' ''--prose-wrap''
   @ flag_with_value options ''htmlWhitespaceSensitivity'' ''--html-whitespace-sensitivity''
   @ flag_if_true options ''vueIndentScriptAndStyle'' ''--vue-indent-script-and-style''
   @ flag_with_value options ''embeddedLanguageFormatting'' ''--embedded-language-formatting''
   @ flag_if_true options ''singleAttributePerLine'' ''--single-attribute-per-line''
   @ flag_with_value options ''objectWrap'' ''--object-wrap''
   @ flag_if_true options ''experimentalTernaries'' ''--experimental-ternaries''
   @ flag_if_true options ''insertPragma'' ''--insert-pragma''
   @ flag_if_true options ''requirePragma'' ''--require-pragma''
   @ [JStr ''--range-start'', JStr (range_value repr options ''rangeStart'' (JInt 0)),
      JStr ''--range-end'', JStr (range_value repr options ''rangeEnd'' (JStr ''Infinity''))]"

text \<open>The exception a value of \<^verbatim>\<open>prettier_options\<close> that is not a dict raises: a
  \<^verbatim>\<open>TypeError\<close> at \<^verbatim>\<open>key in options\<close> or at \<^verbatim>\<open>options[key]\<close>, or else an
  \<^verbatim>\<open>AttributeError\<close> at the first \<^verbatim>\<open>options.get\<close>.\<close>

fun non_dict_options_error :: "json \<Rightarrow> py_error" where
  "non_dict_options_error (JStr s) =
     (if contains ''printWidth'' s then TypeError
      else if contains ''tabWidth'' s then TypeError else AttributeError)"
| "non_dict_options_error (JList l) =
     (if JStr ''printWidth'' \<in> set l then TypeError
      else if JStr ''tabWidth'' \<in> set l then TypeError else AttributeError)"
| "non_dict_options_error _ = TypeError"

text \<open>The executable's own tokens: a package manager command holds spaces and is
  split.\<close>

definition seed_tokens :: "string \<Rightarrow> string list" where
  "seed_tokens prettier_path =
     (if CHR 0x20 \<in> set prettier_path then split_ws [] prettier_path else [prettier_path])"

text \<open>
  \<^verbatim>\<open>build_prettier_command\<close>. Before it returns, the function joins the tokens with
  \<^verbatim>\<open>' '.join(cmd_parts)\<close> to print them, which raises a \<^verbatim>\<open>TypeError\<close> when a token is not a
  string.
\<close>

definition build_prettier_command ::
    "(json \<Rightarrow> string) \<Rightarrow> string \<Rightarrow> string \<Rightarrow> dict \<Rightarrow> py_error + string list" where
  "build_prettier_command repr prettier_path parser config =
     (let cmd_parts = seed_tokens prettier_path @ [''--parser'', parser, ''--no-color'']
      in if truthy (dict_get_default config ''use_prettier_config_file'' (JBool True))
         then Inr cmd_parts
         else (case dict_get_default config ''prettier_options'' (JObj []) of
                 JObj options \<Rightarrow>
                   (let all_parts = map JStr cmd_parts @ option_tokens repr options
                    in if list_all is_str all_parts then Inr (map str_value all_parts)
                       else Inl TypeError)
               | v \<Rightarrow> Inl (non_dict_options_error v)))"

section \<open>Formatting\<close>

text \<open>What \<^verbatim>\<open>do_format\<close> hands back: a text, \<^verbatim>\<open>None\<close>, or an exception that leaves the
  function.\<close>

datatype fmt_result = Text string | NoResult | Raised py_error

text \<open>What \<^verbatim>\<open>do_format\<close> does on the way: its own \<^verbatim>\<open>print\<close> calls, the call of
  \<^verbatim>\<open>load_config\<close>, the call of \<^verbatim>\<open>find_prettier_executable\<close>, and the call of \<^verbatim>\<open>Popen\<close> and
  \<^verbatim>\<open>communicate\<close> (command, working directory, timeout). The lines that the functions it
  calls print are not recorded.\<close>

datatype event =
    Print string
  | LoadConfig
  | FindExecutable
  | Spawn "string list" "string option" json

text \<open>\<^verbatim>\<open>isinstance(timeout, (int, float))\<close>: a Python \<^verbatim>\<open>bool\<close> is an \<^verbatim>\<open>int\<close>.\<close>

fun is_int_or_float :: "json \<Rightarrow> bool" where
  "is_int_or_float (JInt i) = True"
| "is_int_or_float (JFloat f) = True"
| "is_int_or_float (JBool b) = True"
| "is_int_or_float _ = False"

text \<open>\<^verbatim>\<open>timeout <= 0\<close> for such a value: every comparison with NaN is false.\<close>

fun le_zero :: "json \<Rightarrow> bool" where
  "le_zero (JInt i) = (i \<le> 0)"
| "le_zero (JBool b) = (b = False)"
| "le_zero (JFloat (Finite r)) = (r \<le> 0)"
| "le_zero (JFloat NegInf) = True"
| "le_zero (JFloat PosInf) = False"
| "le_zero (JFloat NaN) = False"
| "le_zero _ = False"

text \<open>\<^verbatim>\<open>if not isinstance(timeout, (int, float)) or timeout <= 0\<close>\<close>

definition invalid_timeout :: "json \<Rightarrow> bool" where
  "invalid_timeout timeout = (if is_int_or_float timeout then le_zero timeout else True)"

text \<open>The timeout \<^verbatim>\<open>do_format\<close> passes to \<^verbatim>\<open>communicate\<close>.\<close>

definition effective_timeout :: "dict \<Rightarrow> json" where
  "effective_timeout config =
     (let timeout = dict_get_default config ''timeout_seconds'' (JInt 10)
      in if invalid_timeout timeout then JInt 10 else timeout)"

text \<open>The line printed when the subprocess completed with a return code other than 0.\<close>

definition failure_message :: "string \<Rightarrow> string" where
  "failure_message stderr =
     (let error_msg = (if stderr = [] then ''Unknown error'' else strip stderr)
      in if contains ''SyntaxError'' error_msg \<or> contains ''ParseError'' error_msg
         then ''ERROR: Prettier syntax error:'' @ [CHR 0x0A] @ ''  ''
              @ join ([CHR 0x0A] @ ''  '') (take 3 (split_on (CHR 0x0A) error_msg))
         else ''ERROR: Prettier failed: '' @ error_msg)"

text \<open>The part of \<^verbatim>\<open>do_format\<close> after \<^verbatim>\<open>communicate\<close>, with its three \<^verbatim>\<open>except\<close> clauses.\<close>

definition handle_outcome :: "(json \<Rightarrow> string) \<Rightarrow> json \<Rightarrow> proc_outcome \<Rightarrow> fmt_result \<times> event list" where
  "handle_outcome repr timeout outcome =
     (case outcome of
        Completed returncode stdout stderr \<Rightarrow>
          (if returncode = 0
           then (if stdout = [] then (NoResult, [Print ''ERROR: Prettier returned empty output''])
                 else (Text stdout, []))
           else (NoResult, [Print (failure_message stderr)]))
      | TimeoutExpired \<Rightarrow>
          (NoResult, [Print (''ERROR: Prettier timed out (>'' @ py_str repr timeout @ ''s)'')])
      | FileNotFoundError \<Rightarrow> (NoResult, [Print ''ERROR: Prettier executable not found''])
      | OtherException msg \<Rightarrow> (NoResult, [Print (''ERROR: Prettier execution failed: '' @ msg)]))"

text \<open>\<^verbatim>\<open>do_format\<close>, from the command on: the timeout is validated, the subprocess runs in
  the directory of the current file (in none when the file has no name).\<close>

definition run_prettier :: "env \<Rightarrow> dict \<Rightarrow> string list \<Rightarrow> string \<Rightarrow> fmt_result \<times> event list" where
  "run_prettier e config cmd text =
     (let configured = dict_get_default config ''timeout_seconds'' (JInt 10);
          timeout = effective_timeout config;
          note = (if invalid_timeout configured
                  then [Print (''NOTE: Invalid timeout '' @ [CHR 0x27] @ py_str (py_repr e) configured
                               @ [CHR 0x27] @ '', using default: 10'')]
                  else []);
          cwd = (if ed_filename e = [] then None else Some (dirname e (ed_filename e)));
          (result, printed) = handle_outcome (py_repr e) timeout (run_process e cmd cwd text timeout)
      in (result, note @ [Spawn cmd cwd timeout] @ printed))"

definition do_format :: "env \<Rightarrow> string \<Rightarrow> string \<Rightarrow> fmt_result \<times> event list" where
  "do_format e text lexer =
     (if text = [] \<or> strip text = [] then (Text text, [])
      else
        (let lexer = (if lexer = [] then ed_lexer e else lexer)
         in case map_of LEXER_TO_PARSER lexer of
              None \<Rightarrow>
                (NoResult, [Print (''NOTE: Prettier does not support lexer '' @ [CHR 0x22] @ lexer
                                   @ [CHR 0x22])])
            | Some parser \<Rightarrow>
                (if parser = []
                 then (NoResult, [Print (''NOTE: Prettier does not support lexer '' @ [CHR 0x22]
                                         @ lexer @ [CHR 0x22])])
                 else
                   (let config = load_config (config_file e)
                    in case find_prettier_executable e config of
                         Inl err \<Rightarrow> (Raised err, [LoadConfig, FindExecutable])
                       | Inr None \<Rightarrow> (NoResult, [LoadConfig, FindExecutable])
                       | Inr (Some prettier_path) \<Rightarrow>
                           (if prettier_path = [] then (NoResult, [LoadConfig, FindExecutable])
                            else
                              (case build_prettier_command (py_repr e) prettier_path parser config of
                                 Inl err \<Rightarrow> (Raised err, [LoadConfig, FindExecutable])
                               | Inr cmd \<Rightarrow>
                                   (let (result, events) = run_prettier e config cmd text
                                    in (result,
                                        [LoadConfig, FindExecutable,
                                         Print (''Prettier: Formatting with parser: '' @ parser)]
                                        @ events))))))))"

section \<open>Notions used in the statements and proofs\<close>

text \<open>The entries of a dict whose key satisfies a predicate.\<close>

definition restrict_keys :: "(string \<Rightarrow> bool) \<Rightarrow> dict \<Rightarrow> dict" where
  "restrict_keys P d = [(k, v) \<leftarrow> d. P k]"

text \<open>The default configuration without its comment keys, with a given options block.\<close>

definition config_with :: "dict \<Rightarrow> dict" where
  "config_with opts =
     [(''prettier_path'', JStr []), (''timeout_seconds'', JInt 10),
      (''use_prettier_config_file'', JBool True), (''prettier_options'', JObj opts)]"

text \<open>The options whose value \<^verbatim>\<open>build_prettier_command\<close> appends as it is, without
  \<^verbatim>\<open>str()\<close>.\<close>

definition string_valued_keys :: "string list" where
  "string_valued_keys = [''quoteProps'', ''trailingComma'', ''arrowParens'', ''endOfLine'',
     ''proseWrap'', ''htmlWhitespaceSensitivity'', ''embeddedLanguageFormatting'', ''objectWrap'']"

text \<open>An environment for the examples: a Unix machine where only the bundled tool is
  installed, the current file is \<^verbatim>\<open>/home/user/a.js\<close>, the configuration file is in the given
  state and every subprocess ends with the given outcome.\<close>

definition unix_env :: "cfg_file \<Rightarrow> proc_outcome \<Rightarrow> env" where
  "unix_env f outcome =
     \<lparr>is_win = False,
      path_exists = (\<lambda>p. False),
      is_file = (\<lambda>p. p = ''/opt/cudatext/tools/Prettier/prettier''),
      tools_dir = ''/opt/cudatext/tools/Prettier'',
      path_join = (\<lambda>a b. a @ ''/'' @ b),
      getcwd = ''/home/user'',
      probe_version = (\<lambda>cmd. False),
      which = (\<lambda>name. None),
      ed_lexer = ''JavaScript'',
      ed_filename = ''/home/user/a.js'',
      dirname = (\<lambda>p. ''/home/user''),
      config_file = f,
      run_process = (\<lambda>cmd cwd input timeout. outcome),
      py_repr = (\<lambda>v. [])\<rparr>"

text \<open>The words of the specification for a valid timeout, "a positive number": a positive
  integer or a positive float. It is compared below with \<open>invalid_timeout\<close>, the test of
  the source.\<close>

definition spec_positive_number :: "json \<Rightarrow> bool" where
  "spec_positive_number v =
     (case v of JInt i \<Rightarrow> 0 < i | JFloat (Finite r) \<Rightarrow> 0 < r | JFloat PosInf \<Rightarrow> True | _ \<Rightarrow> False)"

section \<open>Dictionary updates\<close>

lemma dict_update_Nil: "dict_update d [] = d" by (simp add: dict_update_def)
lemma dict_update_snoc: "dict_update d (xs @ [(k, v)]) = AList.update k v (dict_update d xs)"
  by (simp add: dict_update_def)
lemma dict_update_Cons: "dict_update d ((k, v) # xs) = dict_update (AList.update k v d) xs"
  by (simp add: dict_update_def)

lemma distinct_dict_update: "distinct (map fst d) \<Longrightarrow> distinct (map fst (dict_update d xs))"
  by (induction xs arbitrary: d) (auto simp: dict_update_Nil dict_update_Cons distinct_update)

lemma dict_update_absorb:
  "(\<And>k v. (k, v) \<in> set xs \<Longrightarrow> map_of d k = Some v) \<Longrightarrow> dict_update d xs = d"
  by (induction xs arbitrary: d) (auto simp: dict_update_Nil dict_update_Cons update_triv)

lemma update_commute:
  "k \<noteq> k' \<Longrightarrow> k \<in> fst ` set d \<Longrightarrow>
   AList.update k v (AList.update k' v' d) = AList.update k' v' (AList.update k v d)"
  by (induction d) auto

lemma update_dict_update:
  "k \<in> fst ` set d \<Longrightarrow> k \<notin> fst ` set xs \<Longrightarrow>
   AList.update k v (dict_update d xs) = dict_update (AList.update k v d) xs"
proof (induction xs arbitrary: d)
  case Nil
  then show ?case by (simp add: dict_update_Nil)
next
  case (Cons x xs)
  obtain k' v' where x: "x = (k', v')" by (cases x)
  from Cons.prems have ne: "k \<noteq> k'" and notin: "k \<notin> fst ` set xs" by (auto simp: x)
  have "k \<in> fst ` set (AList.update k' v' d)" using Cons.prems(1) by (simp add: dom_update)
  from Cons.IH [OF this notin]
  show ?case using update_commute [OF ne Cons.prems(1), of v v'] by (simp add: x dict_update_Cons)
qed

lemma dict_update_update:
  "distinct (map fst xs) \<Longrightarrow>
   dict_update d (AList.update k v xs) = AList.update k v (dict_update d xs)"
proof (induction xs arbitrary: d)
  case Nil
  then show ?case by (simp add: dict_update_Nil dict_update_Cons)
next
  case (Cons x xs)
  obtain k' v' where x: "x = (k', v')" by (cases x)
  show ?case
  proof (cases "k' = k")
    case True
    with Cons.prems have notin: "k \<notin> fst ` set xs" by (auto simp: x)
    have "k \<in> fst ` set (AList.update k v' d)" by (simp add: dom_update)
    from update_dict_update [OF this notin, of v]
    show ?thesis using True by (simp add: x dict_update_Cons)
  next
    case False
    with Cons show ?thesis by (simp add: x dict_update_Cons)
  qed
qed

lemma restrict_update:
  "P k \<Longrightarrow> restrict_keys P (AList.update k v d) = AList.update k v (restrict_keys P d)"
  by (induction d) (auto simp: restrict_keys_def)

lemma distinct_restrict: "distinct (map fst d) \<Longrightarrow> distinct (map fst (restrict_keys P d))"
  by (simp add: restrict_keys_def distinct_map_filter)

lemma dict_update_replay:
  assumes "distinct (map fst d)" and "\<And>k. k \<in> fst ` set xs \<Longrightarrow> P k"
  shows "dict_update d (restrict_keys P (dict_update d xs)) = dict_update d xs"
  using assms(2)
proof (induction xs rule: rev_induct)
  case Nil
  have "dict_update d (restrict_keys P d) = d"
    using assms(1) by (intro dict_update_absorb) (auto simp: restrict_keys_def)
  then show ?case by (simp add: dict_update_Nil)
next
  case (snoc x xs)
  obtain k v where x: "x = (k, v)" by (cases x)
  have Pk: "P k" using snoc.prems by (force simp: x)
  have IH: "dict_update d (restrict_keys P (dict_update d xs)) = dict_update d xs"
    using snoc by auto
  have dist: "distinct (map fst (restrict_keys P (dict_update d xs)))"
    by (simp add: distinct_restrict distinct_dict_update assms(1))
  show ?case
    by (simp add: x dict_update_snoc restrict_update [where P = P, OF Pk] dict_update_update [OF dist] IH)
qed

section \<open>The merge of the configuration\<close>

lemma filter_comments_restrict: "filter_comments d = restrict_keys (\<lambda>k. \<not> startswith k ''//'') d"
  by (simp add: filter_comments_def restrict_keys_def)

lemma defaults_filtered:
  "filter_comments DEFAULT_CONFIG =
     [(''prettier_path'', JStr []), (''timeout_seconds'', JInt 10),
      (''use_prettier_config_file'', JBool True),
      (''prettier_options'', JObj DEFAULT_PRETTIER_OPTIONS)]"
  by (simp add: filter_comments_def DEFAULT_CONFIG_def startswith_def)

lemma distinct_default_options: "distinct (map fst DEFAULT_PRETTIER_OPTIONS)"
  by (simp add: DEFAULT_PRETTIER_OPTIONS_def)

lemma map_of_dict_update_other:
  "k \<notin> fst ` set xs \<Longrightarrow> map_of (dict_update d xs) k = map_of d k"
  by (induction xs arbitrary: d) (auto simp: dict_update_Nil dict_update_Cons update_conv')

lemma keys_dict_update: "fst ` set (dict_update d xs) = fst ` set d \<union> fst ` set xs"
  by (induction xs arbitrary: d) (simp_all add: dict_update_def case_prod_unfold dom_update)

lemma default_options_replay:
  "dict_update DEFAULT_PRETTIER_OPTIONS (filter_comments DEFAULT_PRETTIER_OPTIONS) = DEFAULT_PRETTIER_OPTIONS"
  using distinct_default_options
  by (intro dict_update_absorb) (auto simp: filter_comments_def)

lemma merged_options_replay:
  "dict_update DEFAULT_PRETTIER_OPTIONS
     (filter_comments (dict_update DEFAULT_PRETTIER_OPTIONS (filter_comments uo))) =
   dict_update DEFAULT_PRETTIER_OPTIONS (filter_comments uo)"
  unfolding filter_comments_restrict
  by (rule dict_update_replay [OF distinct_default_options]) (auto simp: restrict_keys_def)

lemma remerge:
  assumes O: "dict_update DEFAULT_PRETTIER_OPTIONS (filter_comments opts) = opts"
    and w: "\<And>k. k \<in> fst ` set w \<Longrightarrow> \<not> startswith k ''//'' \<and> k \<noteq> ''prettier_options''"
  shows "merge_user_config (JObj (dict_update (config_with opts) w)) =
         Inr (dict_update (config_with opts) w)"
proof -
  let ?m = "dict_update (config_with opts) w"
  let ?P = "\<lambda>k. \<not> startswith k ''//'' \<and> k \<noteq> ''prettier_options''"
  have po: "''prettier_options'' \<notin> fst ` set w" using w by blast
  have get: "dict_get ?m ''prettier_options'' = Some (JObj opts)"
    by (simp add: dict_get_def map_of_dict_update_other [OF po] config_with_def)
  have upd: "AList.update ''prettier_options'' (JObj opts) (filter_comments DEFAULT_CONFIG) = config_with opts"
    by (simp add: defaults_filtered config_with_def)
  have rest: "filter_comments (dict_del ''prettier_options'' ?m) = restrict_keys ?P ?m"
    by (auto simp add: filter_comments_def dict_del_def restrict_keys_def AList.delete_eq
          case_prod_unfold intro!: filter_cong)
  have dist: "distinct (map fst (config_with opts))" by (simp add: config_with_def)
  have "dict_update (config_with opts) (restrict_keys ?P ?m) = ?m"
    by (rule dict_update_replay [OF dist]) (use w in blast)
  then show ?thesis by (simp add: get O upd rest)
qed

lemma load_config_cases:
  "(\<exists>opts w. load_config f = dict_update (config_with opts) w
      \<and> dict_update DEFAULT_PRETTIER_OPTIONS (filter_comments opts) = opts
      \<and> (\<forall>k \<in> fst ` set w. \<not> startswith k ''//'' \<and> k \<noteq> ''prettier_options''))"
proof -
  have dflt: "\<exists>opts w. filter_comments DEFAULT_CONFIG = dict_update (config_with opts) w
      \<and> dict_update DEFAULT_PRETTIER_OPTIONS (filter_comments opts) = opts
      \<and> (\<forall>k \<in> fst ` set w. \<not> startswith k ''//'' \<and> k \<noteq> ''prettier_options'')"
    by (rule exI [of _ DEFAULT_PRETTIER_OPTIONS], rule exI [of _ "[]"])
       (simp add: default_options_replay dict_update_Nil defaults_filtered config_with_def)
  show ?thesis
  proof (cases f)
    case (Parsed u)
    show ?thesis
    proof (cases u)
      case (JObj uc)
      show ?thesis
      proof (cases "dict_get uc ''prettier_options''")
        case None
        then have "''prettier_options'' \<notin> fst ` set uc"
          by (simp add: dict_get_def map_of_eq_None_iff)
        then have "\<forall>k \<in> fst ` set (filter_comments uc). \<not> startswith k ''//'' \<and> k \<noteq> ''prettier_options''"
          by (force simp: filter_comments_def)
        moreover have "load_config f = dict_update (config_with DEFAULT_PRETTIER_OPTIONS) (filter_comments uc)"
          by (simp add: load_config_def Parsed JObj None defaults_filtered config_with_def)
        ultimately show ?thesis using default_options_replay by blast
      next
        case (Some v)
        show ?thesis
        proof (cases v)
          case uo: (JObj uo)
          have "\<forall>k \<in> fst ` set (filter_comments (dict_del ''prettier_options'' uc)).
                  \<not> startswith k ''//'' \<and> k \<noteq> ''prettier_options''"
            by (auto simp: filter_comments_def dict_del_def AList.delete_eq)
          moreover have "load_config f =
              dict_update (config_with (dict_update DEFAULT_PRETTIER_OPTIONS (filter_comments uo)))
                (filter_comments (dict_del ''prettier_options'' uc))"
            by (simp add: load_config_def Parsed JObj Some uo defaults_filtered config_with_def)
          ultimately show ?thesis using merged_options_replay by blast
        qed (use dflt in \<open>simp_all add: load_config_def Parsed JObj Some\<close>)
      qed
    qed (use dflt in \<open>simp_all add: load_config_def Parsed\<close>)
  qed (use dflt in \<open>simp_all add: load_config_def\<close>)
qed

lemma load_config_remerge:
  "load_config (Parsed (JObj (load_config (Parsed user_config)))) = load_config (Parsed user_config)"
proof -
  obtain opts w where "load_config (Parsed user_config) = dict_update (config_with opts) w"
      "dict_update DEFAULT_PRETTIER_OPTIONS (filter_comments opts) = opts"
      "\<forall>k \<in> fst ` set w. \<not> startswith k ''//'' \<and> k \<noteq> ''prettier_options''"
    using load_config_cases by blast
  note m = this
  have "merge_user_config (JObj (dict_update (config_with opts) w)) =
        Inr (dict_update (config_with opts) w)"
    by (rule remerge [OF m(2)]) (use m(3) in blast)
  then have "load_config (Parsed (JObj (dict_update (config_with opts) w))) =
        dict_update (config_with opts) w"
    by (simp add: load_config_def)
  then show ?thesis unfolding m(1) .
qed

lemma load_config_top_level_no_comments:
  "list_all (\<lambda>k. \<not> startswith k ''//'') (dict_keys (load_config f))"
proof -
  obtain opts w where m: "load_config f = dict_update (config_with opts) w"
      "\<forall>k \<in> fst ` set w. \<not> startswith k ''//'' \<and> k \<noteq> ''prettier_options''"
    using load_config_cases by blast
  have "\<forall>k \<in> fst ` set (config_with opts). \<not> startswith k ''//''"
    by (simp add: config_with_def startswith_def)
  with m(2) have "\<forall>k \<in> fst ` set (dict_update (config_with opts) w). \<not> startswith k ''//''"
    unfolding keys_dict_update by blast
  then show ?thesis by (simp add: m(1) list_all_iff dict_keys_def)
qed

lemma load_config_options:
  "\<exists>opts. dict_get (load_config f) ''prettier_options'' = Some (JObj opts)
     \<and> dict_update DEFAULT_PRETTIER_OPTIONS (filter_comments opts) = opts"
proof -
  obtain opts w where m: "load_config f = dict_update (config_with opts) w"
      "dict_update DEFAULT_PRETTIER_OPTIONS (filter_comments opts) = opts"
      "\<forall>k \<in> fst ` set w. \<not> startswith k ''//'' \<and> k \<noteq> ''prettier_options''"
    using load_config_cases by blast
  from m(3) have "''prettier_options'' \<notin> fst ` set w" by blast
  then have "dict_get (load_config f) ''prettier_options'' = Some (JObj opts)"
    by (simp add: m(1) dict_get_def map_of_dict_update_other config_with_def)
  with m(2) show ?thesis by blast
qed

lemma load_config_keeps_default_keys:
  assumes "dict_get (load_config f) ''prettier_options'' = Some (JObj opts)"
  shows "set (dict_keys DEFAULT_PRETTIER_OPTIONS) \<subseteq> set (dict_keys opts)"
proof -
  from load_config_options [of f] assms
  have "dict_update DEFAULT_PRETTIER_OPTIONS (filter_comments opts) = opts" by simp
  then have "fst ` set opts = fst ` set DEFAULT_PRETTIER_OPTIONS \<union> fst ` set (filter_comments opts)"
    using keys_dict_update [of DEFAULT_PRETTIER_OPTIONS "filter_comments opts"] by simp
  then show ?thesis by (auto simp: dict_keys_def)
qed

lemma load_config_keeps_default_comments:
  assumes "dict_get (load_config f) ''prettier_options'' = Some (JObj opts)"
    and "startswith k ''//''"
  shows "dict_get opts k = dict_get DEFAULT_PRETTIER_OPTIONS k"
proof -
  from load_config_options [of f] assms
  have eq: "dict_update DEFAULT_PRETTIER_OPTIONS (filter_comments opts) = opts" by simp
  have "k \<notin> fst ` set (filter_comments opts)" using assms(2) by (auto simp: filter_comments_def)
  from map_of_dict_update_other [OF this, of DEFAULT_PRETTIER_OPTIONS]
  show ?thesis by (simp add: eq dict_get_def)
qed

lemma filter_comments_Nil: "filter_comments [] = []"
  by (simp add: filter_comments_def)

lemma merge_user_config_keeps_user_keys:
  assumes "merge_user_config (JObj user_config) = Inr config"
    and "k \<in> set (dict_keys user_config)" and "\<not> startswith k ''//''"
  shows "k \<in> set (dict_keys config)"
proof -
  have po: "''prettier_options'' \<in> fst ` set (filter_comments DEFAULT_CONFIG)"
    by (simp add: defaults_filtered)
  from assms(1) consider
      (plain) "config = dict_update (filter_comments DEFAULT_CONFIG) (filter_comments user_config)"
    | (nested) opts where "config =
        dict_update (AList.update ''prettier_options'' (JObj opts) (filter_comments DEFAULT_CONFIG))
          (filter_comments (dict_del ''prettier_options'' user_config))"
    by (auto split: option.splits json.splits)
  then show ?thesis
  proof cases
    case plain
    from assms(2,3) have "k \<in> fst ` set (filter_comments user_config)"
      by (force simp: dict_keys_def filter_comments_def)
    then show ?thesis by (simp add: plain dict_keys_def keys_dict_update)
  next
    case nested
    show ?thesis
    proof (cases "k = ''prettier_options''")
      case True
      then show ?thesis by (simp add: nested dict_keys_def keys_dict_update dom_update)
    next
      case False
      with assms(2,3)
      have "k \<in> fst ` set (filter_comments (dict_del ''prettier_options'' user_config))"
        by (force simp: dict_keys_def filter_comments_def dict_del_def AList.delete_eq)
      then show ?thesis by (simp add: nested dict_keys_def keys_dict_update)
    qed
  qed
qed

text \<open>
  Claim C4. Loading is idempotent: for every user document, the configuration that
  \<^verbatim>\<open>load_config\<close> returns, read back as a user document and merged into the defaults again,
  is the same configuration, key for key, value for value and in the same order. So the
  second merge adds no key (no comment key comes back) and drops none, and its top level
  holds no comment key.
\<close>

theorem load_config_idempotent:
  "load_config (Parsed (JObj (load_config (Parsed user_config)))) = load_config (Parsed user_config)
   \<and> list_all (\<lambda>k. \<not> startswith k ''//'')
        (dict_keys (load_config (Parsed (JObj (load_config (Parsed user_config))))))"
  using load_config_remerge [of user_config]
    load_config_top_level_no_comments [of "Parsed user_config"] by simp

text \<open>
  Claim C5, at the user document \<^verbatim>\<open>{}\<close>: the options map of the loaded configuration is
  the default options map as it stands in \<^verbatim>\<open>DEFAULT_CONFIG\<close>, and so it holds the comment
  key \<^verbatim>\<open>// printWidth\<close> with its text. The claim says that no comment key is inside the
  options map. (That every default key stays, and that no comment key is at the top level,
  are the lemmas above.)
\<close>

theorem load_config_keeps_comment_keys_in_options:
  "dict_get (load_config (Parsed (JObj []))) ''prettier_options'' = Some (JObj DEFAULT_PRETTIER_OPTIONS)
   \<and> startswith ''// printWidth'' ''//''
   \<and> dict_get DEFAULT_PRETTIER_OPTIONS ''// printWidth'' = Some (JStr ''Line length (default: 80)'')"
  by (simp add: load_config_def dict_get_def defaults_filtered filter_comments_Nil dict_update_def
      startswith_def DEFAULT_PRETTIER_OPTIONS_def)

lemma map_of_restrict_keys:
  "map_of (restrict_keys P d) k = (if P k then map_of d k else None)"
  by (induction d) (auto simp: restrict_keys_def)

lemma filter_comments_idem: "filter_comments (filter_comments d) = filter_comments d"
  by (simp add: filter_comments_def)

lemma filter_comments_del:
  "filter_comments (dict_del k (filter_comments d)) = filter_comments (dict_del k d)"
  by (induction d) (auto simp: filter_comments_def dict_del_def)

lemma merge_filter_top: "merge_user_config (JObj (filter_comments u)) = merge_user_config (JObj u)"
proof -
  have "dict_get (filter_comments u) ''prettier_options'' = dict_get u ''prettier_options''"
    by (simp add: dict_get_def filter_comments_restrict map_of_restrict_keys startswith_def)
  then show ?thesis
    by (simp add: filter_comments_idem filter_comments_del split: option.splits json.splits)
qed

lemma merge_filter_options:
  "merge_user_config (JObj (AList.update ''prettier_options'' (JObj (filter_comments uo)) u)) =
   merge_user_config (JObj (AList.update ''prettier_options'' (JObj uo) u))"
  by (simp add: dict_get_def update_conv' dict_del_def delete_update_same filter_comments_idem)

text \<open>
  What \<^verbatim>\<open>_filter_comments\<close> does: it removes from the mapping it is given exactly the keys
  that start with \<^verbatim>\<open>//\<close>, keeps every other key with its value, and keeps the order. It
  works on one level. \<^verbatim>\<open>load_config\<close> applies it to the top level of the user document and
  to the user's options block: the configuration loaded is the same whether or not the
  comment keys of either level are removed from the document beforehand.
\<close>

lemma filter_comments_exact:
  "dict_get (filter_comments d) k = (if startswith k ''//'' then None else dict_get d k)
   \<and> dict_keys (filter_comments d) = filter (\<lambda>k. \<not> startswith k ''//'') (dict_keys d)
   \<and> load_config (Parsed (JObj (filter_comments u))) = load_config (Parsed (JObj u))
   \<and> load_config (Parsed (JObj (AList.update ''prettier_options'' (JObj (filter_comments uo)) u)))
       = load_config (Parsed (JObj (AList.update ''prettier_options'' (JObj uo) u)))"
proof (intro conjI)
  show "dict_get (filter_comments d) k = (if startswith k ''//'' then None else dict_get d k)"
    by (simp add: dict_get_def filter_comments_restrict map_of_restrict_keys)
  show "dict_keys (filter_comments d) = filter (\<lambda>k. \<not> startswith k ''//'') (dict_keys d)"
    by (induction d) (auto simp: dict_keys_def filter_comments_def)
  show "load_config (Parsed (JObj (filter_comments u))) = load_config (Parsed (JObj u))"
    by (simp only: load_config_def cfg_file.case merge_filter_top)
  show "load_config (Parsed (JObj (AList.update ''prettier_options'' (JObj (filter_comments uo)) u)))
       = load_config (Parsed (JObj (AList.update ''prettier_options'' (JObj uo) u)))"
    by (simp only: load_config_def cfg_file.case merge_filter_options)
qed

text \<open>
  Claim C6, at the mapping \<^verbatim>\<open>DEFAULT_CONFIG\<close> and at a user document with a comment key at
  each level. After \<^verbatim>\<open>_filter_comments\<close>, as \<^verbatim>\<open>load_config\<close> calls it on the defaults, the
  options block of \<^verbatim>\<open>DEFAULT_CONFIG\<close> still holds the key \<^verbatim>\<open>// printWidth\<close>. In the
  configuration loaded from the user document the top-level comment key is gone and the
  user's \<^verbatim>\<open>printWidth\<close> is taken, but the options block holds \<^verbatim>\<open>// printWidth\<close> with the
  text of the defaults. The claim says that every prefixed key is removed within the
  options block too.
\<close>

theorem filter_comments_keeps_nested_comment_keys:
  "dict_get (filter_comments DEFAULT_CONFIG) ''prettier_options'' = Some (JObj DEFAULT_PRETTIER_OPTIONS)
   \<and> startswith ''// printWidth'' ''//''
   \<and> ''// printWidth'' \<in> set (dict_keys DEFAULT_PRETTIER_OPTIONS)
   \<and> dict_get
        (load_config (Parsed (JObj [(''// note'', JStr ''mine''),
           (''prettier_options'',
            JObj [(''// printWidth'', JStr ''mine''), (''printWidth'', JInt 100)])])))
        ''prettier_options''
      = Some (JObj (dict_update DEFAULT_PRETTIER_OPTIONS [(''printWidth'', JInt 100)]))
   \<and> dict_get (dict_update DEFAULT_PRETTIER_OPTIONS [(''printWidth'', JInt 100)]) ''// printWidth''
      = Some (JStr ''Line length (default: 80)'')
   \<and> dict_get (dict_update DEFAULT_PRETTIER_OPTIONS [(''printWidth'', JInt 100)]) ''printWidth''
      = Some (JInt 100)
   \<and> dict_get
        (load_config (Parsed (JObj [(''// note'', JStr ''mine''),
           (''prettier_options'',
            JObj [(''// printWidth'', JStr ''mine''), (''printWidth'', JInt 100)])])))
        ''// note'' = None"
  by code_simp

section \<open>The command\<close>

lemma str_of_int_0: "str_of_int 0 = ''0''"
  by (simp add: str_of_int_def str_of_nat.simps digit_char_def)

lemma is_str_flag_with_str: "list_all is_str (flag_with_str repr options key flag)"
  by (simp add: flag_with_str_def split: option.splits)

lemma is_str_flag_if_true: "list_all is_str (flag_if_true options key flag)"
  by (simp add: flag_if_true_def)

lemma is_str_flag_if_false: "list_all is_str (flag_if_false options key flag)"
  by (simp add: flag_if_false_def)

lemma is_str_flag_with_value:
  "list_all is_str (flag_with_value options key flag) =
     (case dict_get options key of None \<Rightarrow> True | Some v \<Rightarrow> is_str v)"
  by (simp add: flag_with_value_def split: option.splits)

lemma ex_front_append: "\<exists>front. b = front @ s \<Longrightarrow> \<exists>front. a @ b = front @ s"
  by (metis append_assoc)

lemma option_tokens_suffix:
  "\<exists>front. option_tokens repr options = front @
     [JStr ''--range-start'', JStr (range_value repr options ''rangeStart'' (JInt 0)),
      JStr ''--range-end'', JStr (range_value repr options ''rangeEnd'' (JStr ''Infinity''))]"
  unfolding option_tokens_def
  by (intro ex_front_append) (rule exI [of _ "[]"], simp)

lemma range_value_cases:
  "range_value repr options key dflt =
     (case dict_get options key of None \<Rightarrow> py_str repr dflt | Some JNull \<Rightarrow> py_str repr dflt
      | Some v \<Rightarrow> py_str repr v)"
  by (simp add: range_value_def split: option.splits json.splits)

lemma option_tokens_all_str:
  assumes "\<forall>k \<in> set string_valued_keys. \<forall>v. dict_get options k = Some v \<longrightarrow> is_str v"
  shows "list_all is_str (option_tokens repr options)"
proof -
  have "list_all is_str (flag_with_value options k flag)" if "k \<in> set string_valued_keys" for k flag
    using assms that by (auto simp: is_str_flag_with_value split: option.splits)
  then show ?thesis
    by (simp add: option_tokens_def is_str_flag_with_str is_str_flag_if_true is_str_flag_if_false
        string_valued_keys_def)
qed

text \<open>
  Claim C1. When \<^verbatim>\<open>use_prettier_config_file\<close> is false (or any other value Python takes
  for false), every command \<^verbatim>\<open>build_prettier_command\<close> returns ends with the four tokens
  \<^verbatim>\<open>--range-start\<close>, S, \<^verbatim>\<open>--range-end\<close>, E: S is \<^verbatim>\<open>str\<close> of the configured \<^verbatim>\<open>rangeStart\<close>, or
  \<^verbatim>\<open>0\<close> when the key is absent (or null); E is \<^verbatim>\<open>str\<close> of the configured \<^verbatim>\<open>rangeEnd\<close>, or
  \<^verbatim>\<open>Infinity\<close> when the key is absent (or null), whatever other keys the options hold.
  And a command is returned whenever the options are a dict whose values for the keys of
  \<open>string_valued_keys\<close> are strings.
\<close>

theorem build_prettier_command_range_suffix:
  assumes off: "\<not> truthy (dict_get_default config ''use_prettier_config_file'' (JBool True))"
  shows "(build_prettier_command repr prettier_path parser config = Inr cmd \<longrightarrow>
          (\<exists>front options.
             dict_get_default config ''prettier_options'' (JObj []) = JObj options \<and>
             cmd = front @
               [''--range-start'',
                (case dict_get options ''rangeStart'' of
                   None \<Rightarrow> ''0'' | Some JNull \<Rightarrow> ''0'' | Some v \<Rightarrow> py_str repr v),
                ''--range-end'',
                (case dict_get options ''rangeEnd'' of
                   None \<Rightarrow> ''Infinity'' | Some JNull \<Rightarrow> ''Infinity'' | Some v \<Rightarrow> py_str repr v)]))
       \<and> (dict_get_default config ''prettier_options'' (JObj []) = JObj opts \<and>
          (\<forall>k \<in> set string_valued_keys. \<forall>v. dict_get opts k = Some v \<longrightarrow> is_str v) \<longrightarrow>
          (\<exists>cmd'. build_prettier_command repr prettier_path parser config = Inr cmd'))"
proof (intro conjI impI)
  assume built: "build_prettier_command repr prettier_path parser config = Inr cmd"
  then obtain options where
    opts: "dict_get_default config ''prettier_options'' (JObj []) = JObj options"
    using off by (cases "dict_get_default config ''prettier_options'' (JObj [])")
      (simp_all add: build_prettier_command_def Let_def)
  let ?seed = "seed_tokens prettier_path @ [''--parser'', parser, ''--no-color'']"
  from built off opts have cmd: "cmd = map str_value (map JStr ?seed @ option_tokens repr options)"
    by (simp add: build_prettier_command_def Let_def split: if_splits)
  obtain pre where pre: "option_tokens repr options = pre @
     [JStr ''--range-start'', JStr (range_value repr options ''rangeStart'' (JInt 0)),
      JStr ''--range-end'', JStr (range_value repr options ''rangeEnd'' (JStr ''Infinity''))]"
    using option_tokens_suffix by blast
  have "cmd = (?seed @ map str_value pre) @
     [''--range-start'', range_value repr options ''rangeStart'' (JInt 0),
      ''--range-end'', range_value repr options ''rangeEnd'' (JStr ''Infinity'')]"
    by (simp add: cmd pre comp_def)
  then show "\<exists>front options.
             dict_get_default config ''prettier_options'' (JObj []) = JObj options \<and>
             cmd = front @
               [''--range-start'',
                (case dict_get options ''rangeStart'' of
                   None \<Rightarrow> ''0'' | Some JNull \<Rightarrow> ''0'' | Some v \<Rightarrow> py_str repr v),
                ''--range-end'',
                (case dict_get options ''rangeEnd'' of
                   None \<Rightarrow> ''Infinity'' | Some JNull \<Rightarrow> ''Infinity'' | Some v \<Rightarrow> py_str repr v)]"
    using opts by (simp only: range_value_cases py_str.simps str_of_int_0) blast
next
  assume wf: "dict_get_default config ''prettier_options'' (JObj []) = JObj opts \<and>
          (\<forall>k \<in> set string_valued_keys. \<forall>v. dict_get opts k = Some v \<longrightarrow> is_str v)"
  then have "list_all is_str (option_tokens repr opts)"
    by (intro option_tokens_all_str) blast
  then show "\<exists>cmd'. build_prettier_command repr prettier_path parser config = Inr cmd'"
    using wf off by (auto simp add: build_prettier_command_def Let_def list_all_iff)
qed

theorem build_prettier_command_range_suffix_witness:
  "\<not> truthy (dict_get_default
        [(''use_prettier_config_file'', JBool False),
         (''prettier_options'', JObj [(''semi'', JBool False), (''rangeStart'', JInt 12)])]
        ''use_prettier_config_file'' (JBool True))
   \<and> build_prettier_command (\<lambda>v. []) ''npx prettier'' ''babel''
        [(''use_prettier_config_file'', JBool False),
         (''prettier_options'', JObj [(''semi'', JBool False), (''rangeStart'', JInt 12)])]
      = Inr [''npx'', ''prettier'', ''--parser'', ''babel'', ''--no-color'', ''--no-semi'',
             ''--range-start'', ''12'', ''--range-end'', ''Infinity'']"
  using build_prettier_command_range_suffix
    [of "[(''use_prettier_config_file'', JBool False),
         (''prettier_options'', JObj [(''semi'', JBool False), (''rangeStart'', JInt 12)])]"
        "\<lambda>v. []" "''npx prettier''" "''babel''"
        "[''npx'', ''prettier'', ''--parser'', ''babel'', ''--no-color'', ''--no-semi'',
             ''--range-start'', ''12'', ''--range-end'', ''Infinity'']"
        "[(''semi'', JBool False), (''rangeStart'', JInt 12)]"]
  by (simp add: build_prettier_command_def dict_get_default_def dict_get_def seed_tokens_def
      is_space_def option_tokens_def flag_with_str_def flag_with_value_def flag_if_true_def
      flag_if_false_def range_value_def str_of_int_def str_of_nat.simps digit_char_def)

text \<open>
  Claim C2. When \<^verbatim>\<open>use_prettier_config_file\<close> is true, \<^verbatim>\<open>build_prettier_command\<close> returns
  exactly the executable's own tokens followed by \<^verbatim>\<open>--parser\<close>, the parser name and
  \<^verbatim>\<open>--no-color\<close>, for every parser name and whatever \<^verbatim>\<open>prettier_options\<close> holds.
\<close>

theorem build_prettier_command_project_config:
  assumes "dict_get config ''use_prettier_config_file'' = Some (JBool True)"
  shows "build_prettier_command repr prettier_path parser config =
           Inr (seed_tokens prettier_path @ [''--parser'', parser, ''--no-color''])"
  using assms by (simp add: build_prettier_command_def dict_get_def dict_get_default_def)

theorem build_prettier_command_project_config_witness:
  "dict_get [(''use_prettier_config_file'', JBool True),
             (''prettier_options'', JObj [(''semi'', JBool False), (''printWidth'', JInt 100)])]
     ''use_prettier_config_file'' = Some (JBool True)
   \<and> build_prettier_command (\<lambda>v. []) ''yarn exec prettier'' ''css''
       [(''use_prettier_config_file'', JBool True),
        (''prettier_options'', JObj [(''semi'', JBool False), (''printWidth'', JInt 100)])]
     = Inr [''yarn'', ''exec'', ''prettier'', ''--parser'', ''css'', ''--no-color'']"
  using build_prettier_command_project_config
    [of "[(''use_prettier_config_file'', JBool True),
          (''prettier_options'', JObj [(''semi'', JBool False), (''printWidth'', JInt 100)])]"
        "\<lambda>v. []" "''yarn exec prettier''" "''css''"]
  by (simp add: dict_get_def seed_tokens_def is_space_def)

section \<open>Formatting a text\<close>

lemma strip_empty_iff: "strip s = [] \<longleftrightarrow> (\<forall>c \<in> set s. is_space c)"
proof
  assume "strip s = []"
  then have "\<forall>c \<in> set (dropWhile is_space s). is_space c"
    by (simp add: strip_def dropWhile_eq_Nil_conv)
  then have "dropWhile is_space s = []"
    by (metis hd_dropWhile list.set_sel(1))
  then show "\<forall>c \<in> set s. is_space c" by (simp add: dropWhile_eq_Nil_conv)
next
  assume "\<forall>c \<in> set s. is_space c"
  then have "dropWhile is_space s = []" by (simp add: dropWhile_eq_Nil_conv)
  then show "strip s = []" unfolding strip_def by (simp only: rev.simps dropWhile.simps)
qed

text \<open>
  Claim C10. When the text is empty or holds only whitespace, \<^verbatim>\<open>do_format\<close> returns the
  text as it is and does nothing else: it prints nothing, loads no configuration, looks
  for no executable and starts no subprocess.
\<close>

theorem do_format_blank_text:
  assumes "text = [] \<or> (\<forall>c \<in> set text. is_space c)"
  shows "do_format e text lexer = (Text text, [])"
  using assms by (auto simp: do_format_def strip_empty_iff)

theorem do_format_blank_text_witness:
  "list_all is_space [CHR 0x20, CHR 0x0A, CHR 0x09]
   \<and> do_format (unix_env NoConfigPath (Completed 0 ''x'' [])) [CHR 0x20, CHR 0x0A, CHR 0x09] ''JSON''
       = (Text [CHR 0x20, CHR 0x0A, CHR 0x09], [])"
  using do_format_blank_text [of "[CHR 0x20, CHR 0x0A, CHR 0x09]"
      "unix_env NoConfigPath (Completed 0 ''x'' [])" "''JSON''"]
  by (simp add: is_space_def)

lemma lexer_table_distinct: "distinct (map fst LEXER_TO_PARSER)"
  by (simp add: LEXER_TO_PARSER_def)

lemma lexer_table_entries:
  "map_of LEXER_TO_PARSER ''JavaScript'' = Some ''babel''
   \<and> map_of LEXER_TO_PARSER ''JavaScript Babel'' = Some ''babel-flow''
   \<and> map_of LEXER_TO_PARSER ''TypeScript'' = Some ''typescript''
   \<and> map_of LEXER_TO_PARSER ''CSS'' = Some ''css''
   \<and> map_of LEXER_TO_PARSER ''SCSS'' = Some ''scss''
   \<and> map_of LEXER_TO_PARSER ''LESS'' = Some ''less''
   \<and> map_of LEXER_TO_PARSER ''HTML'' = Some ''html''
   \<and> map_of LEXER_TO_PARSER ''XML'' = Some ''html''
   \<and> map_of LEXER_TO_PARSER ''Markdown'' = Some ''markdown''
   \<and> map_of LEXER_TO_PARSER ''MDX'' = Some ''mdx''
   \<and> map_of LEXER_TO_PARSER ''JSON'' = Some ''json''
   \<and> map_of LEXER_TO_PARSER ''YAML'' = Some ''yaml''
   \<and> map_of LEXER_TO_PARSER ''GraphQL'' = Some ''graphql''
   \<and> map_of LEXER_TO_PARSER ''HTML Handlebars'' = Some ''html''
   \<and> map_of LEXER_TO_PARSER ''HTML Laravel Blade'' = Some ''html''
   \<and> map_of LEXER_TO_PARSER ''HTML Django DTL'' = Some ''html''
   \<and> map_of LEXER_TO_PARSER ''Jinja2'' = Some ''html''
   \<and> map_of LEXER_TO_PARSER ''Twig'' = Some ''html''
   \<and> map_of LEXER_TO_PARSER ''Svelte'' = Some ''html''
   \<and> map_of LEXER_TO_PARSER ''Vue'' = Some ''vue''
   \<and> map_of LEXER_TO_PARSER ''Pug'' = Some ''pug''
   \<and> map_of LEXER_TO_PARSER ''Jade'' = Some ''pug''"
  by (simp add: LEXER_TO_PARSER_def)

text \<open>
  Claim C3, as amended. Every language name of \<^verbatim>\<open>LEXER_TO_PARSER\<close> is looked up to the
  parser written beside it in the source: each of the 22 names to its parser, \<^verbatim>\<open>JavaScript\<close>
  to \<^verbatim>\<open>babel\<close> among them. For a name that is not in the table the lookup gives nothing,
  and \<^verbatim>\<open>do_format\<close> on a text that is not blank prints that the lexer is not supported and
  returns \<^verbatim>\<open>None\<close>, with no configuration loaded and no subprocess started. The name
  looked up is the lexer passed, or the editor's lexer when the one passed is empty.
\<close>

theorem lexer_lookup:
  "(\<forall>(name, parser) \<in> set LEXER_TO_PARSER. map_of LEXER_TO_PARSER name = Some parser)
   \<and> (map_of LEXER_TO_PARSER ''JavaScript'' = Some ''babel''
   \<and> map_of LEXER_TO_PARSER ''JavaScript Babel'' = Some ''babel-flow''
   \<and> map_of LEXER_TO_PARSER ''TypeScript'' = Some ''typescript''
   \<and> map_of LEXER_TO_PARSER ''CSS'' = Some ''css''
   \<and> map_of LEXER_TO_PARSER ''SCSS'' = Some ''scss''
   \<and> map_of LEXER_TO_PARSER ''LESS'' = Some ''less''
   \<and> map_of LEXER_TO_PARSER ''HTML'' = Some ''html''
   \<and> map_of LEXER_TO_PARSER ''XML'' = Some ''html''
   \<and> map_of LEXER_TO_PARSER ''Markdown'' = Some ''markdown''
   \<and> map_of LEXER_TO_PARSER ''MDX'' = Some ''mdx''
   \<and> map_of LEXER_TO_PARSER ''JSON'' = Some ''json''
   \<and> map_of LEXER_TO_PARSER ''YAML'' = Some ''yaml''
   \<and> map_of LEXER_TO_PARSER ''GraphQL'' = Some ''graphql''
   \<and> map_of LEXER_TO_PARSER ''HTML Handlebars'' = Some ''html''
   \<and> map_of LEXER_TO_PARSER ''HTML Laravel Blade'' = Some ''html''
   \<and> map_of LEXER_TO_PARSER ''HTML Django DTL'' = Some ''html''
   \<and> map_of LEXER_TO_PARSER ''Jinja2'' = Some ''html''
   \<and> map_of LEXER_TO_PARSER ''Twig'' = Some ''html''
   \<and> map_of LEXER_TO_PARSER ''Svelte'' = Some ''html''
   \<and> map_of LEXER_TO_PARSER ''Vue'' = Some ''vue''
   \<and> map_of LEXER_TO_PARSER ''Pug'' = Some ''pug''
   \<and> map_of LEXER_TO_PARSER ''Jade'' = Some ''pug'')
   \<and> (text \<noteq> [] \<and> strip text \<noteq> []
        \<and> (if lexer = [] then ed_lexer e else lexer) \<notin> fst ` set LEXER_TO_PARSER
      \<longrightarrow> map_of LEXER_TO_PARSER (if lexer = [] then ed_lexer e else lexer) = None
        \<and> do_format e text lexer =
            (NoResult,
             [Print (''NOTE: Prettier does not support lexer '' @ [CHR 0x22]
                     @ (if lexer = [] then ed_lexer e else lexer) @ [CHR 0x22])]))"
proof -
  have all_entries:
    "\<forall>(name, parser) \<in> set LEXER_TO_PARSER. map_of LEXER_TO_PARSER name = Some parser"
    using lexer_table_distinct by auto
  have absent: "text \<noteq> [] \<and> strip text \<noteq> []
        \<and> (if lexer = [] then ed_lexer e else lexer) \<notin> fst ` set LEXER_TO_PARSER
      \<longrightarrow> map_of LEXER_TO_PARSER (if lexer = [] then ed_lexer e else lexer) = None
        \<and> do_format e text lexer =
            (NoResult,
             [Print (''NOTE: Prettier does not support lexer '' @ [CHR 0x22]
                     @ (if lexer = [] then ed_lexer e else lexer) @ [CHR 0x22])])"
  proof (intro impI conjI)
    assume a: "text \<noteq> [] \<and> strip text \<noteq> []
        \<and> (if lexer = [] then ed_lexer e else lexer) \<notin> fst ` set LEXER_TO_PARSER"
    then have "(if lexer = [] then ed_lexer e else lexer) \<notin> fst ` set LEXER_TO_PARSER" by blast
    then show none: "map_of LEXER_TO_PARSER (if lexer = [] then ed_lexer e else lexer) = None"
      by (rule map_of_eq_None_iff [THEN iffD2])
    show "do_format e text lexer =
            (NoResult,
             [Print (''NOTE: Prettier does not support lexer '' @ [CHR 0x22]
                     @ (if lexer = [] then ed_lexer e else lexer) @ [CHR 0x22])])"
      using a none by (simp add: do_format_def Let_def)
  qed
  show ?thesis
    by (rule conjI [OF all_entries conjI [OF lexer_table_entries absent]])
qed

theorem lexer_lookup_witness:
  "map_of LEXER_TO_PARSER ''Vue'' = Some ''vue''
   \<and> ''x = 1'' \<noteq> [] \<and> strip ''x = 1'' \<noteq> []
   \<and> ''PlainText'' \<notin> fst ` set LEXER_TO_PARSER
   \<and> do_format (unix_env NoConfigPath (Completed 0 ''ok'' [])) ''x = 1'' ''PlainText'' =
       (NoResult, [Print (''NOTE: Prettier does not support lexer '' @ [CHR 0x22] @ ''PlainText''
                          @ [CHR 0x22])])"
proof -
  have h: "''x = 1'' \<noteq> [] \<and> strip ''x = 1'' \<noteq> []
        \<and> (if ''PlainText'' = [] then ed_lexer (unix_env NoConfigPath (Completed 0 ''ok'' []))
            else ''PlainText'') \<notin> fst ` set LEXER_TO_PARSER"
    by code_simp
  note inst = lexer_lookup
    [of "''x = 1''" "''PlainText''" "unix_env NoConfigPath (Completed 0 ''ok'' [])"]
  from inst have vue: "map_of LEXER_TO_PARSER ''Vue'' = Some ''vue''" by blast
  from inst h
  have "do_format (unix_env NoConfigPath (Completed 0 ''ok'' [])) ''x = 1'' ''PlainText'' =
       (NoResult, [Print (''NOTE: Prettier does not support lexer '' @ [CHR 0x22] @ ''PlainText''
                          @ [CHR 0x22])])"
    by simp
  with vue h show ?thesis by simp
qed

text \<open>
  Claim C3 as it is written fails at a blank text: the guard for an empty or
  whitespace-only text comes before the lookup, so with the name \<^verbatim>\<open>PlainText\<close>, which is
  not in the table, \<^verbatim>\<open>do_format\<close> returns the text and not \<^verbatim>\<open>None\<close>.
\<close>

theorem lexer_lookup_blank_text_counterexample:
  "''PlainText'' \<notin> fst ` set LEXER_TO_PARSER
   \<and> list_all is_space [CHR 0x20, CHR 0x0A]
   \<and> do_format (unix_env NoConfigPath (Completed 0 ''ok'' [])) [] ''PlainText'' = (Text [], [])
   \<and> do_format (unix_env NoConfigPath (Completed 0 ''ok'' [])) [CHR 0x20, CHR 0x0A] ''PlainText''
        = (Text [CHR 0x20, CHR 0x0A], [])"
  by code_simp

lemma run_prettier_eq:
  "run_prettier e config cmd text =
     (let timeout = effective_timeout config;
          cwd = (if ed_filename e = [] then None else Some (dirname e (ed_filename e)));
          res = handle_outcome (py_repr e) timeout (run_process e cmd cwd text timeout)
      in (fst res,
          (if invalid_timeout (dict_get_default config ''timeout_seconds'' (JInt 10))
           then [Print (''NOTE: Invalid timeout '' @ [CHR 0x27]
                        @ py_str (py_repr e) (dict_get_default config ''timeout_seconds'' (JInt 10))
                        @ [CHR 0x27] @ '', using default: 10'')]
           else [])
          @ [Spawn cmd cwd timeout] @ snd res))"
  by (simp add: run_prettier_def Let_def case_prod_unfold)

lemma handle_outcome_no_spawn: "Spawn c d t \<notin> set (snd (handle_outcome repr timeout outcome))"
  by (cases outcome) (simp_all add: handle_outcome_def)

lemma run_prettier_spawn:
  assumes "Spawn c d t \<in> set (snd (run_prettier e config cmd text))"
  shows "c = cmd \<and> t = effective_timeout config \<and>
         (\<exists>pre. run_prettier e config cmd text =
            (fst (handle_outcome (py_repr e) t (run_process e c d text t)),
             pre @ [Spawn c d t] @ snd (handle_outcome (py_repr e) t (run_process e c d text t))))"
  using assms handle_outcome_no_spawn
  by (auto simp: run_prettier_eq Let_def split: if_splits)

lemma do_format_spawn:
  assumes "Spawn cmd cwd timeout \<in> set (snd (do_format e text lexer))"
  shows "timeout = effective_timeout (load_config (config_file e)) \<and>
         (\<exists>pre. do_format e text lexer =
            (fst (handle_outcome (py_repr e) timeout (run_process e cmd cwd text timeout)),
             pre @ [Spawn cmd cwd timeout]
               @ snd (handle_outcome (py_repr e) timeout (run_process e cmd cwd text timeout))))"
proof -
  from assms obtain c config where
    sp: "Spawn cmd cwd timeout \<in> set (snd (run_prettier e config c text))"
    and cfg: "config = load_config (config_file e)"
    and df: "\<exists>pre0. do_format e text lexer =
          (fst (run_prettier e config c text), pre0 @ snd (run_prettier e config c text))"
    by (auto simp: do_format_def Let_def case_prod_unfold
        split: if_splits option.splits sum.splits)
  from run_prettier_spawn [OF sp] obtain pre where
    "cmd = c" "timeout = effective_timeout config"
    "run_prettier e config c text =
            (fst (handle_outcome (py_repr e) timeout (run_process e cmd cwd text timeout)),
             pre @ [Spawn cmd cwd timeout]
               @ snd (handle_outcome (py_repr e) timeout (run_process e cmd cwd text timeout)))"
    by blast
  with df cfg show ?thesis by (metis append_assoc fst_conv snd_conv)
qed

lemma unknown_error_no_marker:
  "\<not> contains ''SyntaxError'' ''Unknown error''" "\<not> contains ''ParseError'' ''Unknown error''"
  by (simp_all add: startswith_def)

text \<open>
  Claim C8. When the subprocess that \<^verbatim>\<open>do_format\<close> started completes with a return code
  other than 0, \<^verbatim>\<open>do_format\<close> returns \<^verbatim>\<open>None\<close> and the last thing it prints is the failure
  line. If the trimmed standard error holds \<^verbatim>\<open>SyntaxError\<close> or \<^verbatim>\<open>ParseError\<close>, that line shows
  its first three lines only; otherwise it shows the whole trimmed standard error, or
  \<^verbatim>\<open>Unknown error\<close> when the standard error is empty.
\<close>

theorem do_format_process_failure:
  assumes "Spawn cmd cwd timeout \<in> set (snd (do_format e text lexer))"
    and "run_process e cmd cwd text timeout = Completed returncode stdout stderr"
    and "returncode \<noteq> 0"
  shows "fst (do_format e text lexer) = NoResult
       \<and> last (snd (do_format e text lexer)) = Print (failure_message stderr)
       \<and> (contains ''SyntaxError'' (strip stderr) \<or> contains ''ParseError'' (strip stderr) \<longrightarrow>
            failure_message stderr =
              ''ERROR: Prettier syntax error:'' @ [CHR 0x0A] @ ''  ''
              @ join ([CHR 0x0A] @ ''  '') (take 3 (split_on (CHR 0x0A) (strip stderr))))
       \<and> (\<not> contains ''SyntaxError'' (strip stderr) \<and> \<not> contains ''ParseError'' (strip stderr) \<longrightarrow>
            failure_message stderr =
              ''ERROR: Prettier failed: '' @ (if stderr = [] then ''Unknown error'' else strip stderr))"
proof (intro conjI impI)
  from do_format_spawn [OF assms(1)] obtain pre where
    df: "do_format e text lexer =
      (fst (handle_outcome (py_repr e) timeout (run_process e cmd cwd text timeout)),
       pre @ [Spawn cmd cwd timeout]
         @ snd (handle_outcome (py_repr e) timeout (run_process e cmd cwd text timeout)))"
    by blast
  have ho: "handle_outcome (py_repr e) timeout (run_process e cmd cwd text timeout) =
      (NoResult, [Print (failure_message stderr)])"
    using assms(2,3) by (simp add: handle_outcome_def)
  show "fst (do_format e text lexer) = NoResult" by (simp add: df ho)
  show "last (snd (do_format e text lexer)) = Print (failure_message stderr)" by (simp add: df ho)
next
  assume m: "contains ''SyntaxError'' (strip stderr) \<or> contains ''ParseError'' (strip stderr)"
  have "strip [] = []" by (simp add: strip_def)
  with m have "stderr \<noteq> []" by (auto simp: startswith_def)
  with m show "failure_message stderr =
              ''ERROR: Prettier syntax error:'' @ [CHR 0x0A] @ ''  ''
              @ join ([CHR 0x0A] @ ''  '') (take 3 (split_on (CHR 0x0A) (strip stderr)))"
    by (simp add: failure_message_def)
next
  assume "\<not> contains ''SyntaxError'' (strip stderr) \<and> \<not> contains ''ParseError'' (strip stderr)"
  then show "failure_message stderr =
              ''ERROR: Prettier failed: '' @ (if stderr = [] then ''Unknown error'' else strip stderr)"
    using unknown_error_no_marker by (simp add: failure_message_def)
qed

theorem do_format_process_failure_witness:
  "Spawn [''/opt/cudatext/tools/Prettier/prettier'', ''--parser'', ''babel'', ''--no-color'']
     (Some ''/home/user'') (JInt 10)
     \<in> set (snd (do_format
         (unix_env NoConfigPath
            (Completed 2 [] (''[error] a.js: SyntaxError: Unexpected token (1:7)'' @ [CHR 0x0A]
                             @ ''line 2'' @ [CHR 0x0A] @ ''line 3'' @ [CHR 0x0A] @ ''line 4''
                             @ [CHR 0x0A])))
         ''const ='' []))
   \<and> fst (do_format
         (unix_env NoConfigPath
            (Completed 2 [] (''[error] a.js: SyntaxError: Unexpected token (1:7)'' @ [CHR 0x0A]
                             @ ''line 2'' @ [CHR 0x0A] @ ''line 3'' @ [CHR 0x0A] @ ''line 4''
                             @ [CHR 0x0A])))
         ''const ='' []) = NoResult
   \<and> last (snd (do_format
         (unix_env NoConfigPath
            (Completed 2 [] (''[error] a.js: SyntaxError: Unexpected token (1:7)'' @ [CHR 0x0A]
                             @ ''line 2'' @ [CHR 0x0A] @ ''line 3'' @ [CHR 0x0A] @ ''line 4''
                             @ [CHR 0x0A])))
         ''const ='' []))
       = Print (''ERROR: Prettier syntax error:'' @ [CHR 0x0A]
                @ ''  [error] a.js: SyntaxError: Unexpected token (1:7)'' @ [CHR 0x0A]
                @ ''  line 2'' @ [CHR 0x0A] @ ''  line 3'')"
proof -
  let ?err = "''[error] a.js: SyntaxError: Unexpected token (1:7)'' @ [CHR 0x0A]
                @ ''line 2'' @ [CHR 0x0A] @ ''line 3'' @ [CHR 0x0A] @ ''line 4'' @ [CHR 0x0A]"
  let ?e = "unix_env NoConfigPath (Completed 2 [] ?err)"
  let ?cmd = "[''/opt/cudatext/tools/Prettier/prettier'', ''--parser'', ''babel'', ''--no-color'']"
  have h1: "Spawn ?cmd (Some ''/home/user'') (JInt 10) \<in> set (snd (do_format ?e ''const ='' []))"
    by code_simp
  have h2: "run_process ?e ?cmd (Some ''/home/user'') ''const ='' (JInt 10) = Completed 2 [] ?err"
    by (simp add: unix_env_def)
  have h3: "(2::int) \<noteq> 0" by simp
  have msg: "failure_message ?err = ''ERROR: Prettier syntax error:'' @ [CHR 0x0A]
                @ ''  [error] a.js: SyntaxError: Unexpected token (1:7)'' @ [CHR 0x0A]
                @ ''  line 2'' @ [CHR 0x0A] @ ''  line 3''"
    by code_simp
  from do_format_process_failure [OF h1 h2 h3]
  show ?thesis using h1 msg by simp
qed

text \<open>
  Claim C9. When the subprocess that \<^verbatim>\<open>do_format\<close> started completes with return code 0
  and an empty standard output, \<^verbatim>\<open>do_format\<close> returns \<^verbatim>\<open>None\<close>, not the empty text, and
  the last thing it prints is that the output was empty.
\<close>

theorem do_format_empty_output:
  assumes "Spawn cmd cwd timeout \<in> set (snd (do_format e text lexer))"
    and "run_process e cmd cwd text timeout = Completed 0 [] stderr"
  shows "fst (do_format e text lexer) = NoResult
       \<and> last (snd (do_format e text lexer)) = Print ''ERROR: Prettier returned empty output''"
proof -
  from do_format_spawn [OF assms(1)] obtain pre where
    df: "do_format e text lexer =
      (fst (handle_outcome (py_repr e) timeout (run_process e cmd cwd text timeout)),
       pre @ [Spawn cmd cwd timeout]
         @ snd (handle_outcome (py_repr e) timeout (run_process e cmd cwd text timeout)))"
    by blast
  have ho: "handle_outcome (py_repr e) timeout (run_process e cmd cwd text timeout) =
      (NoResult, [Print ''ERROR: Prettier returned empty output''])"
    using assms(2) by (simp add: handle_outcome_def)
  show ?thesis by (simp add: df ho)
qed

theorem do_format_empty_output_witness:
  "Spawn [''/opt/cudatext/tools/Prettier/prettier'', ''--parser'', ''css'', ''--no-color'']
     (Some ''/home/user'') (JInt 10)
     \<in> set (snd (do_format (unix_env NoConfigPath (Completed 0 [] [])) ''a{}'' ''CSS''))
   \<and> fst (do_format (unix_env NoConfigPath (Completed 0 [] [])) ''a{}'' ''CSS'') = NoResult
   \<and> last (snd (do_format (unix_env NoConfigPath (Completed 0 [] [])) ''a{}'' ''CSS''))
       = Print ''ERROR: Prettier returned empty output''"
proof -
  let ?e = "unix_env NoConfigPath (Completed 0 [] [])"
  let ?cmd = "[''/opt/cudatext/tools/Prettier/prettier'', ''--parser'', ''css'', ''--no-color'']"
  have h1: "Spawn ?cmd (Some ''/home/user'') (JInt 10) \<in> set (snd (do_format ?e ''a{}'' ''CSS''))"
    by code_simp
  have h2: "run_process ?e ?cmd (Some ''/home/user'') ''a{}'' (JInt 10) = Completed 0 [] []"
    by (simp add: unix_env_def)
  from do_format_empty_output [OF h1 h2]
  show ?thesis using h1 by simp
qed

lemma effective_timeout_positive:
  assumes "dict_get config ''timeout_seconds'' = Some v" and "spec_positive_number v"
  shows "effective_timeout config = v"
  using assms
  by (auto simp: effective_timeout_def dict_get_def dict_get_default_def invalid_timeout_def
      spec_positive_number_def split: json.splits pyfloat.splits)

lemma effective_timeout_substituted:
  assumes "dict_get config ''timeout_seconds'' = Some v" and "\<not> spec_positive_number v"
    and "v \<noteq> JFloat NaN" and "v \<noteq> JBool True"
  shows "effective_timeout config = JInt 10"
  using assms
  by (cases v rule: le_zero.cases)
     (auto simp: effective_timeout_def dict_get_def dict_get_default_def invalid_timeout_def
      spec_positive_number_def)

lemma effective_timeout_absent:
  "dict_get config ''timeout_seconds'' = None \<Longrightarrow> effective_timeout config = JInt 10"
  by (simp add: effective_timeout_def dict_get_def dict_get_default_def invalid_timeout_def)

text \<open>
  Claim C7, at the configuration documents \<^verbatim>\<open>{"timeout_seconds": NaN}\<close> and
  \<^verbatim>\<open>{"timeout_seconds": true}\<close>: neither value is a positive number, and for neither the
  default of 10 is substituted. The timeout handed to the subprocess is NaN, respectively
  \<^verbatim>\<open>True\<close>. The claim says that every value that is not a positive number is replaced
  by 10. (The lemmas above show that these two values are the only ones for which the test
  of the source and the words of the claim differ.)
\<close>

theorem nan_timeout_not_substituted:
  "\<not> spec_positive_number (JFloat NaN)
   \<and> effective_timeout (load_config (Parsed (JObj [(''timeout_seconds'', JFloat NaN)]))) = JFloat NaN
   \<and> \<not> spec_positive_number (JBool True)
   \<and> effective_timeout (load_config (Parsed (JObj [(''timeout_seconds'', JBool True)]))) = JBool True
   \<and> do_format (unix_env (Parsed (JObj [(''timeout_seconds'', JFloat NaN)])) (Completed 0 ''ok'' []))
        ''x = 1'' ''JSON'' =
       (Text ''ok'',
        [LoadConfig, FindExecutable, Print ''Prettier: Formatting with parser: json'',
         Spawn [''/opt/cudatext/tools/Prettier/prettier'', ''--parser'', ''json'', ''--no-color'']
           (Some ''/home/user'') (JFloat NaN)])"
  by code_simp

end
